theory Spec2Isabelle
  imports Main "HOL-Library.Sublist"
begin

section \<open>JavaScript values\<close>

text \<open>
  The hook \<^verbatim>\<open>useFormButton\<close> handles plain JavaScript data: strings, booleans,
  arrays, objects and functions. An object is a finite map from property names to
  values; a function value is known by an identifier, and what it does when called
  belongs to the page that owns it.
\<close>

datatype jsval =
    JUndefined
  | JBool bool
  | JStr string
  | JArr "jsval list"
  | JObj "string \<Rightarrow> jsval option"
  | JFun nat

type_synonym obj = "string \<rightharpoonup> jsval"

text \<open>The \<^verbatim>\<open>typeof\<close> operator on a value.\<close>

fun typeof :: "jsval \<Rightarrow> string" where
  "typeof JUndefined = ''undefined''"
| "typeof (JBool b) = ''boolean''"
| "typeof (JStr s) = ''string''"
| "typeof (JArr xs) = ''object''"
| "typeof (JObj m) = ''object''"
| "typeof (JFun f) = ''function''"

text \<open>
  \<^verbatim>\<open>typeof name\<close> on a global identifier: an identifier that no script declared
  gives \<^verbatim>\<open>'undefined'\<close> and does not raise.
\<close>

definition typeof_global :: "jsval option \<Rightarrow> string" where
  "typeof_global b = (case b of None \<Rightarrow> ''undefined'' | Some v \<Rightarrow> typeof v)"

text \<open>
  What a \<^verbatim>\<open>throw\<close> carries: \<open>Error m\<close> is \<^verbatim>\<open>new Error(m)\<close>, \<open>TypeError m\<close>
  is the engine's own error on calling a non-function, and \<open>Thrown v\<close> is any other
  value a foreign function throws.
\<close>

datatype exn = Error string | TypeError string | Thrown jsval

section \<open>The page and the host lifecycle\<close>

text \<open>
  The page at one invocation of the hook: the global binding \<^verbatim>\<open>formbutton\<close>
  (\<open>None\<close> when no script declared it) and, for every function value \<open>f\<close> of the
  page, what \<open>f\<close> throws when called with an intent and a configuration (\<open>None\<close>
  when it returns).
\<close>

record page =
  formbutton :: "jsval option"
  throws :: "nat \<Rightarrow> string \<Rightarrow> obj \<Rightarrow> exn option"

text \<open>
  The argument bound to the parameter \<^verbatim>\<open>config\<close>: left out (or \<^verbatim>\<open>undefined\<close>), or
  an object of the caller, given by its address and by its own properties at this
  invocation.
\<close>

datatype config_arg = Omitted | Given nat obj

text \<open>
  The identity of the object bound to \<^verbatim>\<open>config\<close>. The default \<^verbatim>\<open>{}\<close> of the
  parameter list is evaluated at every invocation that leaves the argument out, so it
  is an object no earlier or later invocation has seen.
\<close>

datatype ident = Ref nat | Fresh

text \<open>
  \<^verbatim>\<open>Object.is\<close> between the object remembered from an earlier invocation and the
  object of this one.
\<close>

fun same_object :: "ident \<Rightarrow> ident \<Rightarrow> bool" where
  "same_object (Ref a) (Ref b) = (a = b)"
| "same_object (Ref a) Fresh = False"
| "same_object Fresh i = False"

type_synonym call = "string \<times> obj"

text \<open>
  What outlives one invocation: the dependency array React remembers for this hook
  instance (\<open>None\<close> before the mount) and the calls the page's initializer has
  received so far, oldest first.
\<close>

record host =
  deps :: "(string \<times> ident) option"
  calls :: "call list"

definition mount :: host where
  "mount = \<lparr> deps = None, calls = [] \<rparr>"

text \<open>The comparison of two dependency arrays \<^verbatim>\<open>[formActionEndpoint, config]\<close>.\<close>

definition deps_equal :: "string \<times> ident \<Rightarrow> string \<times> ident \<Rightarrow> bool" where
  "deps_equal old new = (fst old = fst new \<and> same_object (snd old) (snd new))"

text \<open>
  Whether the effect is due: always at the mount, afterwards only when the remembered
  array differs from the new one.
\<close>

definition deps_changed :: "(string \<times> ident) option \<Rightarrow> string \<times> ident \<Rightarrow> bool" where
  "deps_changed prev ds = (case prev of None \<Rightarrow> True | Some old \<Rightarrow> \<not> deps_equal old ds)"

text \<open>
  Modelled from the spec: React's \<^verbatim>\<open>useEffect\<close> is a library the repository imports,
  not code of its own. The spec's words: the effect is keyed by the pair (endpoint,
  overrides); it runs on the very first mount and whenever either value changes, by
  value for the endpoint and by reference for the overrides; nothing is torn down,
  batched or reordered, and what the effect throws reaches the host unchanged. One
  invocation of the hook and the effect it schedules are one step here.
\<close>

definition useEffect ::
  "(host \<Rightarrow> (exn + unit) \<times> host) \<Rightarrow> string \<times> ident \<Rightarrow> host \<Rightarrow> (exn + unit) \<times> host" where
  "useEffect effect ds h =
     (if deps_changed (deps h) ds then effect (h\<lparr>deps := Some ds\<rparr>) else (Inr (), h))"

section \<open>The hook\<close>

text \<open>The two messages of the hook's own errors, as the source spells them.\<close>

definition formbutton_not_defined :: string where
  "formbutton_not_defined =
     ''formbutton is not defined. Please make sure to load the formbutton script at the end of the <body>...</body> section of your index.html file. See https://formspree.io/formbutton for more information.''"

definition formActionEndpoint_required :: string where
  "formActionEndpoint_required =
     ''formActionEndpoint is required. Please provide the endpoint to send the form data to (e.g. https://formspree.io/f/xyz)''"

text \<open>
  The object literal of the effect:
  \<^verbatim>\<open>{ action: formActionEndpoint, title: ..., fields: [...], styles: {...},
     initiallyVisible: false, ...config }\<close>.
  The spread comes last, so every own property of \<^verbatim>\<open>config\<close> is written over
  what the literal has set before it.
\<close>

definition config_literal :: "string \<Rightarrow> obj \<Rightarrow> obj" where
  "config_literal formActionEndpoint config =
     [ ''action'' \<mapsto> JStr formActionEndpoint,
       ''title'' \<mapsto> JStr ''How can I help?'',
       ''fields'' \<mapsto> JArr
          [ JObj [ ''type'' \<mapsto> JStr ''email'',
                   ''label'' \<mapsto> JStr ''Email:'',
                   ''name'' \<mapsto> JStr ''email'',
                   ''required'' \<mapsto> JBool True,
                   ''placeholder'' \<mapsto> JStr ''yourbestemail@email.com'' ],
            JObj [ ''type'' \<mapsto> JStr ''textarea'',
                   ''label'' \<mapsto> JStr ''Message:'',
                   ''name'' \<mapsto> JStr ''message'',
                   ''placeholder'' \<mapsto> JStr ''What's on your mind?'' ],
            JObj [ ''type'' \<mapsto> JStr ''submit'' ] ],
       ''styles'' \<mapsto> JObj
          [ ''title'' \<mapsto> JObj [ ''backgroundColor'' \<mapsto> JStr ''gray'' ],
            ''button'' \<mapsto> JObj [ ''backgroundColor'' \<mapsto> JStr ''gray'' ] ],
       ''initiallyVisible'' \<mapsto> JBool False ]
     ++ config"

text \<open>
  The call \<^verbatim>\<open>formbutton(intent, cfg)\<close>: the page's function receives the call and
  may throw. Calling a binding that holds no function is the engine's TypeError.
\<close>

definition call_formbutton :: "page \<Rightarrow> string \<Rightarrow> obj \<Rightarrow> host \<Rightarrow> (exn + unit) \<times> host" where
  "call_formbutton p intent cfg h =
     (case formbutton p of
        Some (JFun f) \<Rightarrow>
          ((case throws p f intent cfg of Some x \<Rightarrow> Inl x | None \<Rightarrow> Inr ()),
           h\<lparr>calls := calls h @ [(intent, cfg)]\<rparr>)
      | _ \<Rightarrow> (Inl (TypeError ''formbutton is not a function''), h))"

text \<open>The body of the effect: \<^verbatim>\<open>formbutton('create', { ... })\<close>.\<close>

definition effect :: "page \<Rightarrow> string \<Rightarrow> obj \<Rightarrow> host \<Rightarrow> (exn + unit) \<times> host" where
  "effect p formActionEndpoint config h =
     call_formbutton p ''create'' (config_literal formActionEndpoint config) h"

text \<open>
  The default of the second parameter, \<^verbatim>\<open>config = {}\<close>: the object the body sees
  and its identity.
\<close>

fun bind_config :: "config_arg \<Rightarrow> ident \<times> obj" where
  "bind_config Omitted = (Fresh, Map.empty)"
| "bind_config (Given a props) = (Ref a, props)"

text \<open>
  \<^verbatim>\<open>useFormButton(formActionEndpoint, config = {})\<close>. The first argument is \<open>None\<close>
  when the caller passes nothing (or \<^verbatim>\<open>undefined\<close>, as the demo does when its
  environment variable is unset); \<^verbatim>\<open>!formActionEndpoint\<close> holds for that and for the
  empty string.
\<close>

definition useFormButton ::
  "page \<Rightarrow> string option \<Rightarrow> config_arg \<Rightarrow> host \<Rightarrow> (exn + unit) \<times> host" where
  "useFormButton p formActionEndpoint arg h =
     (if typeof_global (formbutton p) \<noteq> ''function''
      then (Inl (Error formbutton_not_defined), h)
      else
        case formActionEndpoint of
          None \<Rightarrow> (Inl (Error formActionEndpoint_required), h)
        | Some e \<Rightarrow>
            if e = [] then (Inl (Error formActionEndpoint_required), h)
            else useEffect (effect p e (snd (bind_config arg))) (e, fst (bind_config arg)) h)"

text \<open>
  A sequence of invocations of one hook instance, each with the page and the arguments
  of its moment. An invocation that throws ends the sequence, as the exception ends the
  render.
\<close>

fun renders :: "(page \<times> string option \<times> config_arg) list \<Rightarrow> host \<Rightarrow> (exn + unit) \<times> host" where
  "renders [] h = (Inr (), h)"
| "renders ((p, e, c) # rs) h =
     (case useFormButton p e c h of
        (Inl x, h') \<Rightarrow> (Inl x, h')
      | (Inr u, h') \<Rightarrow> renders rs h')"

section \<open>The pages of the test suite\<close>

text \<open>
  \<^verbatim>\<open>beforeEach\<close> binds the global \<^verbatim>\<open>formbutton\<close> to a jest mock, a function that
  records its calls and returns; the first test deletes the global again.
\<close>

definition mockFormbutton :: page where
  "mockFormbutton = \<lparr> formbutton = Some (JFun 0), throws = (\<lambda>f intent cfg. None) \<rparr>"

definition no_formbutton :: page where
  "no_formbutton = \<lparr> formbutton = None, throws = (\<lambda>f intent cfg. None) \<rparr>"

section \<open>The configuration the spec describes\<close>

text \<open>
  The spec's DefaultConfig: title "How can I help?", one email field, one message
  textarea, one submit control, gray title and button styling, initially hidden. The
  labels, names and placeholders of the fields are those the test suite expects in the
  call with the default configuration.
\<close>

definition spec_DefaultConfig :: obj where
  "spec_DefaultConfig =
     [ ''title'' \<mapsto> JStr ''How can I help?'',
       ''fields'' \<mapsto> JArr
          [ JObj [ ''type'' \<mapsto> JStr ''email'',
                   ''label'' \<mapsto> JStr ''Email:'',
                   ''name'' \<mapsto> JStr ''email'',
                   ''required'' \<mapsto> JBool True,
                   ''placeholder'' \<mapsto> JStr ''yourbestemail@email.com'' ],
            JObj [ ''type'' \<mapsto> JStr ''textarea'',
                   ''label'' \<mapsto> JStr ''Message:'',
                   ''name'' \<mapsto> JStr ''message'',
                   ''placeholder'' \<mapsto> JStr ''What's on your mind?'' ],
            JObj [ ''type'' \<mapsto> JStr ''submit'' ] ],
       ''styles'' \<mapsto> JObj
          [ ''title'' \<mapsto> JObj [ ''backgroundColor'' \<mapsto> JStr ''gray'' ],
            ''button'' \<mapsto> JObj [ ''backgroundColor'' \<mapsto> JStr ''gray'' ] ],
       ''initiallyVisible'' \<mapsto> JBool False ]"

text \<open>
  The spec's dispatched configuration, \<^verbatim>\<open>{..DefaultConfig, ..CallerOverrides,
  action: Endpoint}\<close>: the action is written last.
\<close>

definition spec_merge :: "string \<Rightarrow> obj \<Rightarrow> obj" where
  "spec_merge endpoint overrides = (spec_DefaultConfig ++ overrides)(''action'' \<mapsto> JStr endpoint)"

section \<open>How one invocation goes\<close>

lemma typeof_function: "typeof v = ''function'' \<longleftrightarrow> (\<exists>f. v = JFun f)"
  by (cases v) simp_all

lemma typeof_global_function:
  "typeof_global b = ''function'' \<longleftrightarrow> (\<exists>f. b = Some (JFun f))"
  by (cases b) (simp_all add: typeof_global_def typeof_function)

lemma useFormButton_not_callable:
  assumes "\<forall>f. formbutton p \<noteq> Some (JFun f)"
  shows "useFormButton p e c h = (Inl (Error formbutton_not_defined), h)"
  using assms by (simp add: useFormButton_def typeof_global_function)

lemma useFormButton_no_endpoint:
  assumes "formbutton p = Some (JFun f)" and "e = None \<or> e = Some []"
  shows "useFormButton p e c h = (Inl (Error formActionEndpoint_required), h)"
  using assms by (auto simp: useFormButton_def typeof_global_def)

lemma useFormButton_runs:
  assumes "formbutton p = Some (JFun f)" and "e \<noteq> []"
    and "deps_changed (deps h) (e, fst (bind_config c))"
  shows "useFormButton p (Some e) c h =
     ((case throws p f ''create'' (config_literal e (snd (bind_config c))) of
         Some x \<Rightarrow> Inl x | None \<Rightarrow> Inr ()),
      h\<lparr>deps := Some (e, fst (bind_config c)),
        calls := calls h @ [(''create'', config_literal e (snd (bind_config c)))]\<rparr>)"
  using assms
  by (simp add: useFormButton_def typeof_global_def useEffect_def effect_def call_formbutton_def)

lemma useFormButton_skips:
  assumes "formbutton p = Some (JFun f)" and "e \<noteq> []"
    and "\<not> deps_changed (deps h) (e, fst (bind_config c))"
  shows "useFormButton p (Some e) c h = (Inr (), h)"
  using assms
  by (simp add: useFormButton_def typeof_global_def useEffect_def)

lemma deps_changed_Fresh: "deps_changed d (e, Fresh)"
  by (cases d) (auto simp: deps_changed_def deps_equal_def elim: same_object.elims)

lemma deps_changed_Ref:
  "deps_changed (Some (e0, Ref a0)) (e, Ref a) \<longleftrightarrow> \<not> (e = e0 \<and> a = a0)"
  by (auto simp: deps_changed_def deps_equal_def)

lemma deps_changed_mount: "deps_changed (deps mount) ds"
  by (simp add: deps_changed_def mount_def)

lemma renders_snoc:
  "renders (rs @ [(p, e, c)]) h0 =
     (case renders rs h0 of
        (Inl x, h) \<Rightarrow> (Inl x, h)
      | (Inr u, h) \<Rightarrow> useFormButton p e c h)"
  by (induction rs arbitrary: h0) (auto split: prod.splits sum.splits)

lemma formbutton_mock: "formbutton mockFormbutton = Some (JFun 0)"
  by (simp add: mockFormbutton_def)

lemma formbutton_absent: "formbutton no_formbutton \<noteq> Some (JFun f)"
  by (simp add: no_formbutton_def)

lemma messages_differ: "formbutton_not_defined \<noteq> formActionEndpoint_required"
  by (simp add: formbutton_not_defined_def formActionEndpoint_required_def)

section \<open>The two precondition checks\<close>

text \<open>
  C2. Whenever the global \<^verbatim>\<open>formbutton\<close> is absent or holds anything but a function,
  the hook throws the Error "formbutton is not defined ..." (the spec's
  MissingRuntimeCapability), whatever the endpoint, the config and the state of the
  host. The host comes back as it was: nothing has been merged and the initializer has
  received no call. The message tells the caller to load the formbutton script and
  names the documentation at https://formspree.io/formbutton.
\<close>

theorem missing_capability_raises:
  assumes "\<forall>f. formbutton p \<noteq> Some (JFun f)"
  shows "useFormButton p e c h = (Inl (Error formbutton_not_defined), h)
       \<and> sublist ''Please make sure to load the formbutton script'' formbutton_not_defined
       \<and> sublist ''See https://formspree.io/formbutton for more information'' formbutton_not_defined"
proof -
  have thrown: "useFormButton p e c h = (Inl (Error formbutton_not_defined), h)"
    using assms by (rule useFormButton_not_callable)
  have load: "sublist ''Please make sure to load the formbutton script'' formbutton_not_defined"
    unfolding sublist_def formbutton_not_defined_def
    by (rule exI [of _ "''formbutton is not defined. ''"],
        rule exI [of _ "'' at the end of the <body>...</body> section of your index.html file. See https://formspree.io/formbutton for more information.''"])
      simp
  have docs: "sublist ''See https://formspree.io/formbutton for more information'' formbutton_not_defined"
    unfolding sublist_def formbutton_not_defined_def
    by (rule exI [of _ "''formbutton is not defined. Please make sure to load the formbutton script at the end of the <body>...</body> section of your index.html file. ''"],
        rule exI [of _ "''.''"])
      simp
  from thrown load docs show ?thesis by simp
qed

theorem missing_capability_raises_witness:
  "(\<forall>f. formbutton no_formbutton \<noteq> Some (JFun f))
   \<and> useFormButton no_formbutton (Some ''https://formspree.io/f/xyz'') Omitted mount
       = (Inl (Error formbutton_not_defined), mount)"
  using missing_capability_raises [of no_formbutton "Some ''https://formspree.io/f/xyz''" Omitted mount]
  by (simp add: formbutton_absent)

text \<open>
  C3. With a callable \<^verbatim>\<open>formbutton\<close> and an endpoint that is missing or the empty
  string, the hook throws the Error "formActionEndpoint is required ..." (the spec's
  InvalidArgument). The host comes back as it was, so the initializer has received no
  call. The message asks for the endpoint to send the form data to.
\<close>

theorem missing_endpoint_raises:
  assumes "formbutton p = Some (JFun f)" and "e = None \<or> e = Some ''''"
  shows "useFormButton p e c h = (Inl (Error formActionEndpoint_required), h)
       \<and> calls (snd (useFormButton p e c h)) = calls h
       \<and> sublist ''Please provide the endpoint to send the form data to'' formActionEndpoint_required"
proof -
  have thrown: "useFormButton p e c h = (Inl (Error formActionEndpoint_required), h)"
    using assms by (rule useFormButton_no_endpoint)
  have asks: "sublist ''Please provide the endpoint to send the form data to'' formActionEndpoint_required"
    unfolding sublist_def formActionEndpoint_required_def
    by (rule exI [of _ "''formActionEndpoint is required. ''"],
        rule exI [of _ "'' (e.g. https://formspree.io/f/xyz)''"])
      simp
  from thrown asks show ?thesis by simp
qed

theorem missing_endpoint_raises_witness:
  "formbutton mockFormbutton = Some (JFun 0)
   \<and> useFormButton mockFormbutton (Some '''') (Given 0 Map.empty) mount
       = (Inl (Error formActionEndpoint_required), mount)
   \<and> calls (snd (useFormButton mockFormbutton (Some '''') (Given 0 Map.empty) mount)) = []"
  using missing_endpoint_raises [of mockFormbutton 0 "Some ''''" "Given 0 Map.empty" mount]
  by (simp add: formbutton_mock mount_def)

text \<open>
  C9. The capability check comes first: with \<^verbatim>\<open>formbutton\<close> absent or not callable and
  the endpoint missing or empty as well, the error thrown is "formbutton is not
  defined ...", not "formActionEndpoint is required ...".
\<close>

theorem capability_check_first:
  assumes "\<forall>f. formbutton p \<noteq> Some (JFun f)" and "e = None \<or> e = Some ''''"
  shows "fst (useFormButton p e c h) = Inl (Error formbutton_not_defined)
       \<and> fst (useFormButton p e c h) \<noteq> Inl (Error formActionEndpoint_required)"
  using assms(1) by (simp add: useFormButton_not_callable messages_differ)

theorem capability_check_first_witness:
  "(\<forall>f. formbutton no_formbutton \<noteq> Some (JFun f))
   \<and> fst (useFormButton no_formbutton (Some '''') Omitted mount) = Inl (Error formbutton_not_defined)
   \<and> fst (useFormButton no_formbutton None Omitted mount) \<noteq> Inl (Error formActionEndpoint_required)"
proof -
  have absent: "\<forall>f. formbutton no_formbutton \<noteq> Some (JFun f)"
    by (simp add: formbutton_absent)
  have "fst (useFormButton no_formbutton (Some '''') Omitted mount) = Inl (Error formbutton_not_defined)"
    using capability_check_first [of no_formbutton "Some ''''" Omitted mount] absent by blast
  moreover
  have "fst (useFormButton no_formbutton None Omitted mount) \<noteq> Inl (Error formActionEndpoint_required)"
    using capability_check_first [of no_formbutton None Omitted mount] absent by blast
  ultimately show ?thesis
    using absent by blast
qed

section \<open>The configuration the initializer receives\<close>

lemma config_literal_spread:
  "config_literal e ov = (spec_DefaultConfig(''action'' \<mapsto> JStr e)) ++ ov"
proof -
  have "[''action'' \<mapsto> JStr e] ++ spec_DefaultConfig = spec_DefaultConfig(''action'' \<mapsto> JStr e)"
    by (rule ext) (simp add: spec_DefaultConfig_def map_add_def)
  then show ?thesis
    by (simp add: config_literal_def spec_DefaultConfig_def)
qed

lemma config_literal_action:
  "config_literal e ov ''action'' =
     (case ov ''action'' of None \<Rightarrow> Some (JStr e) | Some v \<Rightarrow> Some v)"
  by (simp add: config_literal_spread map_add_def split: option.splits)

lemma config_literal_other:
  "k \<noteq> ''action'' \<Longrightarrow> config_literal e ov k = (spec_DefaultConfig ++ ov) k"
  by (simp add: config_literal_spread map_add_def split: option.splits)

lemma config_literal_override: "ov k = Some v \<Longrightarrow> config_literal e ov k = Some v"
  by (simp add: config_literal_spread map_add_def)

lemma config_literal_default: "ov k = None \<Longrightarrow> config_literal e ov k = config_literal e Map.empty k"
  by (simp add: config_literal_spread map_add_def)

lemma spec_merge_action: "spec_merge e ov ''action'' = Some (JStr e)"
  by (simp add: spec_merge_def)

lemma spec_merge_other: "k \<noteq> ''action'' \<Longrightarrow> spec_merge e ov k = (spec_DefaultConfig ++ ov) k"
  by (simp add: spec_merge_def)

lemma config_literal_is_spec_merge:
  "config_literal e ov = spec_merge e ov \<longleftrightarrow> ov ''action'' = None \<or> ov ''action'' = Some (JStr e)"
proof
  assume "config_literal e ov = spec_merge e ov"
  then have "config_literal e ov ''action'' = spec_merge e ov ''action''"
    by simp
  then show "ov ''action'' = None \<or> ov ''action'' = Some (JStr e)"
    by (simp add: config_literal_action spec_merge_action split: option.splits)
next
  assume a: "ov ''action'' = None \<or> ov ''action'' = Some (JStr e)"
  show "config_literal e ov = spec_merge e ov"
  proof (rule ext)
    fix k
    show "config_literal e ov k = spec_merge e ov k"
    proof (cases "k = ''action''")
      case True
      with a show ?thesis
        by (auto simp: config_literal_action spec_merge_action)
    next
      case False
      then show ?thesis
        by (simp add: config_literal_other spec_merge_other)
    qed
  qed
qed

lemma calls_when_due:
  assumes "formbutton p = Some (JFun f)" and "e \<noteq> []"
    and "deps_changed (deps h) (e, fst (bind_config c))"
  shows "calls (snd (useFormButton p (Some e) c h)) =
           calls h @ [(''create'', config_literal e (snd (bind_config c)))]"
  using assms by (simp add: useFormButton_runs)

lemma config_literal_empty:
  "config_literal e Map.empty =
     [ ''action'' \<mapsto> JStr e,
       ''title'' \<mapsto> JStr ''How can I help?'',
       ''fields'' \<mapsto> JArr
          [ JObj [ ''type'' \<mapsto> JStr ''email'',
                   ''label'' \<mapsto> JStr ''Email:'',
                   ''name'' \<mapsto> JStr ''email'',
                   ''required'' \<mapsto> JBool True,
                   ''placeholder'' \<mapsto> JStr ''yourbestemail@email.com'' ],
            JObj [ ''type'' \<mapsto> JStr ''textarea'',
                   ''label'' \<mapsto> JStr ''Message:'',
                   ''name'' \<mapsto> JStr ''message'',
                   ''placeholder'' \<mapsto> JStr ''What's on your mind?'' ],
            JObj [ ''type'' \<mapsto> JStr ''submit'' ] ],
       ''styles'' \<mapsto> JObj
          [ ''title'' \<mapsto> JObj [ ''backgroundColor'' \<mapsto> JStr ''gray'' ],
            ''button'' \<mapsto> JObj [ ''backgroundColor'' \<mapsto> JStr ''gray'' ] ],
       ''initiallyVisible'' \<mapsto> JBool False ]"
  by (simp add: config_literal_def)

text \<open>
  C1, as the code has it. For a valid call whose effect is due, the initializer
  receives one more call, \<^verbatim>\<open>('create', cfg)\<close> with
  \<^verbatim>\<open>cfg = { action: endpoint, ..defaults, ..overrides }\<close>. This is the spec's
  \<^verbatim>\<open>{..DefaultConfig, ..overrides, action: endpoint}\<close>, and its action is the endpoint,
  exactly when the overrides have no action of their own or carry the endpoint there;
  an action among the overrides replaces the endpoint. Every other key has the value
  of \<^verbatim>\<open>{..DefaultConfig, ..overrides}\<close>.
\<close>

theorem dispatched_config_spread:
  assumes "formbutton p = Some (JFun f)" and "e \<noteq> ''''"
    and "deps_changed (deps h) (e, Ref a)"
  shows "calls (snd (useFormButton p (Some e) (Given a ov) h))
           = calls h @ [(''create'', config_literal e ov)]
       \<and> (config_literal e ov = spec_merge e ov
            \<longleftrightarrow> ov ''action'' = None \<or> ov ''action'' = Some (JStr e))
       \<and> (config_literal e ov ''action'' = Some (JStr e)
            \<longleftrightarrow> ov ''action'' = None \<or> ov ''action'' = Some (JStr e))
       \<and> (\<forall>v. ov ''action'' = Some v \<longrightarrow> config_literal e ov ''action'' = Some v)
       \<and> (\<forall>k. k \<noteq> ''action'' \<longrightarrow> config_literal e ov k = (spec_DefaultConfig ++ ov) k)"
proof -
  have log: "calls (snd (useFormButton p (Some e) (Given a ov) h))
           = calls h @ [(''create'', config_literal e ov)]"
    using assms calls_when_due [of p f e h "Given a ov"] by simp
  have act: "config_literal e ov ''action'' = Some (JStr e)
            \<longleftrightarrow> ov ''action'' = None \<or> ov ''action'' = Some (JStr e)"
    by (simp add: config_literal_action split: option.splits)
  from log act show ?thesis
    by (simp add: config_literal_is_spec_merge config_literal_override config_literal_other)
qed

theorem dispatched_config_spread_witness:
  "formbutton mockFormbutton = Some (JFun 0)
   \<and> deps_changed (deps mount) (''https://x/f/1'', Ref 7)
   \<and> calls (snd (useFormButton mockFormbutton (Some ''https://x/f/1'')
               (Given 7 [''title'' \<mapsto> JStr ''Contact Us'', ''initiallyVisible'' \<mapsto> JBool True]) mount))
       = [(''create'', spec_merge ''https://x/f/1''
                         [''title'' \<mapsto> JStr ''Contact Us'', ''initiallyVisible'' \<mapsto> JBool True])]
   \<and> spec_merge ''https://x/f/1''
        [''title'' \<mapsto> JStr ''Contact Us'', ''initiallyVisible'' \<mapsto> JBool True] ''action''
       = Some (JStr ''https://x/f/1'')"
proof -
  have m: "formbutton mockFormbutton = Some (JFun 0)"
    by (rule formbutton_mock)
  have d: "deps_changed (deps mount) (''https://x/f/1'', Ref 7)"
    by (rule deps_changed_mount)
  have e: "''https://x/f/1'' \<noteq> ''''"
    by simp
  have n: "[''title'' \<mapsto> JStr ''Contact Us'', ''initiallyVisible'' \<mapsto> JBool True] ''action'' = None"
    by simp
  from dispatched_config_spread [OF m e d,
      of "[''title'' \<mapsto> JStr ''Contact Us'', ''initiallyVisible'' \<mapsto> JBool True]"] n m d
  show ?thesis
    by (simp add: mount_def spec_merge_action)
qed

text \<open>
  C1 as the spec words it fails when the overrides name an action. With
  endpoint \<^verbatim>\<open>https://x/f/1\<close> and overrides \<^verbatim>\<open>{ action: 'https://x/f/2' }\<close> the one call
  the initializer receives carries the action \<^verbatim>\<open>https://x/f/2\<close>, which is not the
  endpoint, and the configuration is not the spec's merge.
\<close>

theorem action_override_counterexample:
  "calls (snd (useFormButton mockFormbutton (Some ''https://x/f/1'')
               (Given 7 [''action'' \<mapsto> JStr ''https://x/f/2'']) mount))
     = [(''create'', config_literal ''https://x/f/1'' [''action'' \<mapsto> JStr ''https://x/f/2''])]
   \<and> config_literal ''https://x/f/1'' [''action'' \<mapsto> JStr ''https://x/f/2''] ''action''
       = Some (JStr ''https://x/f/2'')
   \<and> config_literal ''https://x/f/1'' [''action'' \<mapsto> JStr ''https://x/f/2''] ''action''
       \<noteq> Some (JStr ''https://x/f/1'')
   \<and> config_literal ''https://x/f/1'' [''action'' \<mapsto> JStr ''https://x/f/2'']
       \<noteq> spec_merge ''https://x/f/1'' [''action'' \<mapsto> JStr ''https://x/f/2'']"
proof -
  have log: "calls (snd (useFormButton mockFormbutton (Some ''https://x/f/1'')
               (Given 7 [''action'' \<mapsto> JStr ''https://x/f/2'']) mount))
     = [(''create'', config_literal ''https://x/f/1'' [''action'' \<mapsto> JStr ''https://x/f/2''])]"
    using calls_when_due [of mockFormbutton 0 "''https://x/f/1''" mount
        "Given 7 [''action'' \<mapsto> JStr ''https://x/f/2'']"]
    by (simp add: formbutton_mock deps_changed_mount) (simp add: mount_def)
  have act: "config_literal ''https://x/f/1'' [''action'' \<mapsto> JStr ''https://x/f/2''] ''action''
       = Some (JStr ''https://x/f/2'')"
    by (simp add: config_literal_action)
  have ne: "config_literal ''https://x/f/1'' [''action'' \<mapsto> JStr ''https://x/f/2'']
       \<noteq> spec_merge ''https://x/f/1'' [''action'' \<mapsto> JStr ''https://x/f/2'']"
    by (simp add: config_literal_is_spec_merge)
  from log act ne show ?thesis
    by simp
qed

text \<open>
  C4. The merge is one level deep. The initializer receives \<^verbatim>\<open>config_literal e ov\<close>
  whenever the effect is due. With overrides \<^verbatim>\<open>{ title: x }\<close> and nothing else, its
  fields and styles are the default ones, whole, and its title is \<open>x\<close>. With overrides
  that hold a \<^verbatim>\<open>fields\<close> value, the fields are exactly that value: none of the default
  fields is kept or added (and likewise for \<^verbatim>\<open>styles\<close>).
\<close>

theorem merge_is_shallow:
  assumes "formbutton p = Some (JFun f)" and "e \<noteq> ''''"
    and "deps_changed (deps h) (e, Ref a)"
  shows "calls (snd (useFormButton p (Some e) (Given a ov) h))
           = calls h @ [(''create'', config_literal e ov)]
       \<and> config_literal e [''title'' \<mapsto> JStr x] ''title'' = Some (JStr x)
       \<and> config_literal e [''title'' \<mapsto> JStr x] ''fields'' = Some (JArr
            [ JObj [ ''type'' \<mapsto> JStr ''email'',
                     ''label'' \<mapsto> JStr ''Email:'',
                     ''name'' \<mapsto> JStr ''email'',
                     ''required'' \<mapsto> JBool True,
                     ''placeholder'' \<mapsto> JStr ''yourbestemail@email.com'' ],
              JObj [ ''type'' \<mapsto> JStr ''textarea'',
                     ''label'' \<mapsto> JStr ''Message:'',
                     ''name'' \<mapsto> JStr ''message'',
                     ''placeholder'' \<mapsto> JStr ''What's on your mind?'' ],
              JObj [ ''type'' \<mapsto> JStr ''submit'' ] ])
       \<and> config_literal e [''title'' \<mapsto> JStr x] ''styles'' = Some (JObj
            [ ''title'' \<mapsto> JObj [ ''backgroundColor'' \<mapsto> JStr ''gray'' ],
              ''button'' \<mapsto> JObj [ ''backgroundColor'' \<mapsto> JStr ''gray'' ] ])
       \<and> (\<forall>xs. ov ''fields'' = Some (JArr xs) \<longrightarrow> config_literal e ov ''fields'' = Some (JArr xs))
       \<and> (\<forall>m. ov ''styles'' = Some (JObj m) \<longrightarrow> config_literal e ov ''styles'' = Some (JObj m))"
proof -
  have log: "calls (snd (useFormButton p (Some e) (Given a ov) h))
           = calls h @ [(''create'', config_literal e ov)]"
    using assms calls_when_due [of p f e h "Given a ov"] by simp
  have title: "config_literal e [''title'' \<mapsto> JStr x] ''title'' = Some (JStr x)"
    by (simp add: config_literal_override)
  have fields: "config_literal e [''title'' \<mapsto> JStr x] ''fields'' = config_literal e Map.empty ''fields''"
    by (rule config_literal_default) simp
  have styles: "config_literal e [''title'' \<mapsto> JStr x] ''styles'' = config_literal e Map.empty ''styles''"
    by (rule config_literal_default) simp
  show ?thesis
    unfolding fields styles
    using log title by (simp add: config_literal_override) (simp add: config_literal_empty)
qed

theorem merge_is_shallow_witness:
  "formbutton mockFormbutton = Some (JFun 0)
   \<and> deps_changed (deps mount) (''https://formspree.io/f/field-types'', Ref 3)
   \<and> calls (snd (useFormButton mockFormbutton (Some ''https://formspree.io/f/field-types'')
        (Given 3 [''fields'' \<mapsto> JArr [JObj [''type'' \<mapsto> JStr ''text'', ''name'' \<mapsto> JStr ''text-field''],
                                            JObj [''type'' \<mapsto> JStr ''reset'']]]) mount))
       = [(''create'', config_literal ''https://formspree.io/f/field-types''
             [''fields'' \<mapsto> JArr [JObj [''type'' \<mapsto> JStr ''text'', ''name'' \<mapsto> JStr ''text-field''],
                                      JObj [''type'' \<mapsto> JStr ''reset'']]])]
   \<and> config_literal ''https://formspree.io/f/field-types''
        [''fields'' \<mapsto> JArr [JObj [''type'' \<mapsto> JStr ''text'', ''name'' \<mapsto> JStr ''text-field''],
                                 JObj [''type'' \<mapsto> JStr ''reset'']]] ''fields''
       = Some (JArr [JObj [''type'' \<mapsto> JStr ''text'', ''name'' \<mapsto> JStr ''text-field''],
                     JObj [''type'' \<mapsto> JStr ''reset'']])"
proof -
  have m: "formbutton mockFormbutton = Some (JFun 0)"
    by (rule formbutton_mock)
  have d: "deps_changed (deps mount) (''https://formspree.io/f/field-types'', Ref 3)"
    by (rule deps_changed_mount)
  have e: "''https://formspree.io/f/field-types'' \<noteq> ''''"
    by simp
  from merge_is_shallow [OF m e d,
      of "[''fields'' \<mapsto> JArr [JObj [''type'' \<mapsto> JStr ''text'', ''name'' \<mapsto> JStr ''text-field''],
                                   JObj [''type'' \<mapsto> JStr ''reset'']]]"] m d
  show ?thesis
    by (simp add: mount_def)
qed

text \<open>
  C5. A valid call that names no overrides makes the initializer receive exactly one
  more call, on any host state: intent \<^verbatim>\<open>create\<close> and the default configuration in
  full, with the endpoint as its action.
\<close>

theorem default_config_dispatched:
  assumes "formbutton p = Some (JFun f)" and "e \<noteq> ''''"
  shows "calls (snd (useFormButton p (Some e) Omitted h)) = calls h @
     [(''create'',
       [ ''action'' \<mapsto> JStr e,
         ''title'' \<mapsto> JStr ''How can I help?'',
         ''fields'' \<mapsto> JArr
            [ JObj [ ''type'' \<mapsto> JStr ''email'',
                     ''label'' \<mapsto> JStr ''Email:'',
                     ''name'' \<mapsto> JStr ''email'',
                     ''required'' \<mapsto> JBool True,
                     ''placeholder'' \<mapsto> JStr ''yourbestemail@email.com'' ],
              JObj [ ''type'' \<mapsto> JStr ''textarea'',
                     ''label'' \<mapsto> JStr ''Message:'',
                     ''name'' \<mapsto> JStr ''message'',
                     ''placeholder'' \<mapsto> JStr ''What's on your mind?'' ],
              JObj [ ''type'' \<mapsto> JStr ''submit'' ] ],
         ''styles'' \<mapsto> JObj
            [ ''title'' \<mapsto> JObj [ ''backgroundColor'' \<mapsto> JStr ''gray'' ],
              ''button'' \<mapsto> JObj [ ''backgroundColor'' \<mapsto> JStr ''gray'' ] ],
         ''initiallyVisible'' \<mapsto> JBool False ])]"
proof -
  have "calls (snd (useFormButton p (Some e) Omitted h))
          = calls h @ [(''create'', config_literal e Map.empty)]"
    using assms calls_when_due [of p f e h Omitted] by (simp add: deps_changed_Fresh)
  then show ?thesis
    unfolding config_literal_empty .
qed

theorem default_config_dispatched_witness:
  "formbutton mockFormbutton = Some (JFun 0)
   \<and> length (calls (snd (useFormButton mockFormbutton (Some ''https://x/f/1'') Omitted mount))) = 1
   \<and> fst (hd (calls (snd (useFormButton mockFormbutton (Some ''https://x/f/1'') Omitted mount))))
       = ''create''
   \<and> snd (hd (calls (snd (useFormButton mockFormbutton (Some ''https://x/f/1'') Omitted mount))))
        ''action'' = Some (JStr ''https://x/f/1'')
   \<and> snd (hd (calls (snd (useFormButton mockFormbutton (Some ''https://x/f/1'') Omitted mount))))
        ''initiallyVisible'' = Some (JBool False)"
proof -
  have m: "formbutton mockFormbutton = Some (JFun 0)"
    by (rule formbutton_mock)
  have e: "''https://x/f/1'' \<noteq> ''''"
    by simp
  from default_config_dispatched [OF m e, of mount] m
  show ?thesis
    by (simp add: mount_def)
qed

text \<open>
  C10. With no overrides the configuration the initializer receives has the five keys
  action, title, fields, styles and initiallyVisible and no other: description, theme
  and loadGoogleFonts are absent. With overrides, each of the three is there exactly
  when the caller's object has it, with the caller's value.
\<close>

theorem default_config_keys:
  assumes "formbutton p = Some (JFun f)" and "e \<noteq> ''''"
  shows "calls (snd (useFormButton p (Some e) Omitted h))
           = calls h @ [(''create'', config_literal e Map.empty)]
       \<and> dom (config_literal e Map.empty)
           = {''action'', ''title'', ''fields'', ''styles'', ''initiallyVisible''}
       \<and> config_literal e Map.empty ''description'' = None
       \<and> config_literal e Map.empty ''theme'' = None
       \<and> config_literal e Map.empty ''loadGoogleFonts'' = None
       \<and> config_literal e ov ''description'' = ov ''description''
       \<and> config_literal e ov ''theme'' = ov ''theme''
       \<and> config_literal e ov ''loadGoogleFonts'' = ov ''loadGoogleFonts''"
proof -
  have log: "calls (snd (useFormButton p (Some e) Omitted h))
          = calls h @ [(''create'', config_literal e Map.empty)]"
    using assms calls_when_due [of p f e h Omitted] by (simp add: deps_changed_Fresh)
  have keys: "dom (config_literal e Map.empty)
           = {''action'', ''title'', ''fields'', ''styles'', ''initiallyVisible''}"
    unfolding config_literal_empty by auto
  have other: "config_literal e ov ''description'' = ov ''description''"
    "config_literal e ov ''theme'' = ov ''theme''"
    "config_literal e ov ''loadGoogleFonts'' = ov ''loadGoogleFonts''" for ov
    by (simp_all add: config_literal_def map_add_def split: option.splits)
  from log keys other [of ov] other [of Map.empty] show ?thesis
    by simp
qed

theorem default_config_keys_witness:
  "formbutton mockFormbutton = Some (JFun 0)
   \<and> calls (snd (useFormButton mockFormbutton (Some ''https://formspree.io/f/test123'') Omitted mount))
       = [(''create'', config_literal ''https://formspree.io/f/test123'' Map.empty)]
   \<and> dom (config_literal ''https://formspree.io/f/test123'' Map.empty)
       = {''action'', ''title'', ''fields'', ''styles'', ''initiallyVisible''}
   \<and> config_literal ''https://formspree.io/f/test123'' [''loadGoogleFonts'' \<mapsto> JBool True]
        ''loadGoogleFonts'' = Some (JBool True)
   \<and> config_literal ''https://formspree.io/f/test123'' [''loadGoogleFonts'' \<mapsto> JBool True]
        ''theme'' = None"
proof -
  have m: "formbutton mockFormbutton = Some (JFun 0)"
    by (rule formbutton_mock)
  have e: "''https://formspree.io/f/test123'' \<noteq> ''''"
    by simp
  from default_config_keys [OF m e, of mount "[''loadGoogleFonts'' \<mapsto> JBool True]"] m
  show ?thesis
    by (simp add: mount_def)
qed

section \<open>Invocation after invocation\<close>






lemma first_invocation_mock:
  "useFormButton mockFormbutton (Some (x # xs)) c mount =
     (Inr (), \<lparr> deps = Some (x # xs, fst (bind_config c)),
                calls = [(''create'', config_literal (x # xs) (snd (bind_config c)))] \<rparr>)"
  using useFormButton_runs [of mockFormbutton 0 "x # xs" mount c]
  by (simp add: formbutton_mock deps_changed_mount) (simp add: mockFormbutton_def mount_def)

lemma first_render_mock:
  "renders [(mockFormbutton, Some (x # xs), c)] mount =
     (Inr (), \<lparr> deps = Some (x # xs, fst (bind_config c)),
                calls = [(''create'', config_literal (x # xs) (snd (bind_config c)))] \<rparr>)"
  by (simp add: first_invocation_mock)

text \<open>
  C6. Neither check is remembered. After any run of invocations that went through, on
  the host state they left behind, an invocation that finds \<^verbatim>\<open>formbutton\<close> absent or
  not callable throws "formbutton is not defined ...", and one that finds it callable
  but has no endpoint throws "formActionEndpoint is required ..."; the host state stays
  as it was.
\<close>

theorem checks_run_every_time:
  assumes "renders rs h0 = (Inr (), h)"
  shows "((\<forall>f. formbutton p \<noteq> Some (JFun f)) \<longrightarrow>
            useFormButton p e c h = (Inl (Error formbutton_not_defined), h)
            \<and> renders (rs @ [(p, e, c)]) h0 = (Inl (Error formbutton_not_defined), h))
       \<and> ((\<exists>f. formbutton p = Some (JFun f)) \<and> (e = None \<or> e = Some '''') \<longrightarrow>
            useFormButton p e c h = (Inl (Error formActionEndpoint_required), h)
            \<and> renders (rs @ [(p, e, c)]) h0 = (Inl (Error formActionEndpoint_required), h))"
proof -
  have last: "renders (rs @ [(p, e, c)]) h0 = useFormButton p e c h"
    using assms by (simp add: renders_snoc)
  show ?thesis
    unfolding last
    by (auto simp: useFormButton_not_callable useFormButton_no_endpoint)
qed

theorem checks_run_every_time_witness:
  "renders [(mockFormbutton, Some ''https://formspree.io/f/xyz'', Omitted)] mount
     = (Inr (), \<lparr> deps = Some (''https://formspree.io/f/xyz'', Fresh),
                  calls = [(''create'', config_literal ''https://formspree.io/f/xyz'' Map.empty)] \<rparr>)
   \<and> (\<forall>f. formbutton no_formbutton \<noteq> Some (JFun f))
   \<and> renders ([(mockFormbutton, Some ''https://formspree.io/f/xyz'', Omitted)]
               @ [(no_formbutton, Some ''https://formspree.io/f/xyz'', Omitted)]) mount
     = (Inl (Error formbutton_not_defined),
        \<lparr> deps = Some (''https://formspree.io/f/xyz'', Fresh),
          calls = [(''create'', config_literal ''https://formspree.io/f/xyz'' Map.empty)] \<rparr>)"
proof -
  have first: "renders [(mockFormbutton, Some ''https://formspree.io/f/xyz'', Omitted)] mount
     = (Inr (), \<lparr> deps = Some (''https://formspree.io/f/xyz'', Fresh),
                  calls = [(''create'', config_literal ''https://formspree.io/f/xyz'' Map.empty)] \<rparr>)"
    using first_render_mock [of "CHR ''h''" "''ttps://formspree.io/f/xyz''" Omitted] by simp
  have absent: "\<forall>f. formbutton no_formbutton \<noteq> Some (JFun f)"
    by (simp add: formbutton_absent)
  from checks_run_every_time [OF first, of no_formbutton "Some ''https://formspree.io/f/xyz''" Omitted]
    first absent
  show ?thesis
    by blast
qed



section \<open>What the initializer throws\<close>

text \<open>
  C8. In a valid call whose effect is due, when the page's \<^verbatim>\<open>formbutton\<close> throws \<open>x\<close>
  on the call it receives, the invocation ends with \<open>x\<close> itself; the initializer has
  received that one call and no second one. Whatever an invocation throws is one of the
  hook's two errors or a value the initializer threw on a \<^verbatim>\<open>create\<close> call.
\<close>

theorem initializer_error_propagates:
  assumes "formbutton p = Some (JFun f)" and "e \<noteq> ''''"
    and "deps_changed (deps h) (e, fst (bind_config c))"
    and "throws p f ''create'' (config_literal e (snd (bind_config c))) = Some x"
  shows "useFormButton p (Some e) c h =
           (Inl x, h\<lparr>deps := Some (e, fst (bind_config c)),
                     calls := calls h @ [(''create'', config_literal e (snd (bind_config c)))]\<rparr>)
       \<and> (\<forall>y. fst (useFormButton q e' c' h') = Inl y \<longrightarrow>
             y = Error formbutton_not_defined
             \<or> y = Error formActionEndpoint_required
             \<or> (\<exists>g cfg. formbutton q = Some (JFun g) \<and> throws q g ''create'' cfg = Some y))"
proof -
  have thrown: "useFormButton p (Some e) c h =
           (Inl x, h\<lparr>deps := Some (e, fst (bind_config c)),
                     calls := calls h @ [(''create'', config_literal e (snd (bind_config c)))]\<rparr>)"
    using assms by (simp add: useFormButton_runs)
  have origin: "y = Error formbutton_not_defined
             \<or> y = Error formActionEndpoint_required
             \<or> (\<exists>g cfg. formbutton q = Some (JFun g) \<and> throws q g ''create'' cfg = Some y)"
    if y: "fst (useFormButton q e' c' h') = Inl y" for y
  proof (cases "\<exists>g. formbutton q = Some (JFun g)")
    case False
    then have "useFormButton q e' c' h' = (Inl (Error formbutton_not_defined), h')"
      by (simp add: useFormButton_not_callable)
    with y show ?thesis
      by simp
  next
    case True
    then obtain g where g: "formbutton q = Some (JFun g)"
      by blast
    show ?thesis
    proof (cases "e' = None \<or> e' = Some []")
      case True
      with g have "useFormButton q e' c' h' = (Inl (Error formActionEndpoint_required), h')"
        by (rule useFormButton_no_endpoint)
      with y show ?thesis
        by simp
    next
      case False
      then obtain s where s: "e' = Some s" "s \<noteq> []"
        by auto
      show ?thesis
      proof (cases "deps_changed (deps h') (s, fst (bind_config c'))")
        case True
        with g s y have "throws q g ''create'' (config_literal s (snd (bind_config c'))) = Some y"
          by (simp add: useFormButton_runs split: option.splits)
        with g show ?thesis
          by blast
      next
        case False
        with g s have "useFormButton q e' c' h' = (Inr (), h')"
          by (simp add: useFormButton_skips)
        with y show ?thesis
          by simp
      qed
    qed
  qed
  from thrown origin show ?thesis
    by blast
qed

theorem initializer_error_propagates_witness:
  "formbutton \<lparr> formbutton = Some (JFun 0),
                 throws = (\<lambda>f intent cfg. Some (Thrown (JStr ''widget failed''))) \<rparr> = Some (JFun 0)
   \<and> deps_changed (deps mount) (''https://x/f/1'', fst (bind_config Omitted))
   \<and> useFormButton \<lparr> formbutton = Some (JFun 0),
                      throws = (\<lambda>f intent cfg. Some (Thrown (JStr ''widget failed''))) \<rparr>
        (Some ''https://x/f/1'') Omitted mount
       = (Inl (Thrown (JStr ''widget failed'')),
          \<lparr> deps = Some (''https://x/f/1'', Fresh),
            calls = [(''create'', config_literal ''https://x/f/1'' Map.empty)] \<rparr>)"
proof -
  have d: "deps_changed (deps mount) (''https://x/f/1'', fst (bind_config Omitted))"
    by (rule deps_changed_mount)
  have e: "''https://x/f/1'' \<noteq> ''''"
    by simp
  from initializer_error_propagates [of
      "\<lparr> formbutton = Some (JFun 0), throws = (\<lambda>f intent cfg. Some (Thrown (JStr ''widget failed''))) \<rparr>"
      0 "''https://x/f/1''" mount Omitted "Thrown (JStr ''widget failed'')"] d e
  show ?thesis
    by (simp add: mount_def)
qed

end
